theory Spec2Isabelle
  imports Complex_Main "HOL-Library.Sublist"
begin

section \<open>DietCheck: dietary safety classification and search filtering\<close>

text \<open>
  A shallow embedding of the decision logic of \<^verbatim>\<open>plugin.py\<close>: the safety analyser
  \<^verbatim>\<open>analyze_product_safety\<close> with its nested helper \<^verbatim>\<open>check_diet_status\<close>, and the
  search filter \<^verbatim>\<open>meets_nutrient_filters\<close> with the candidate loop of
  \<^verbatim>\<open>search_food_product\<close>.

  Conventions of the model.
  \<^item> A Python \<^verbatim>\<open>str\<close> is a list of code points. The alphabet is the code points below
    256 together with U+0130 and U+0307: U+0130 is the one code point whose lower-casing
    is longer than itself, and U+0307 is what that lower-casing adds. The alphabet is
    closed under \<^verbatim>\<open>str.lower()\<close>.
  \<^item> A Python \<^verbatim>\<open>float\<close> that a record or a filter carries is the \<^typ>\<open>real\<close> it denotes
    (no NaN, no infinity); comparisons of floats are comparisons of these reals. Where the
    code converts with \<^verbatim>\<open>float\<close>, the conversion of an \<^verbatim>\<open>int\<close> rounds and overflows as
    the interpreter does.
  \<^item> An exception is a value \<open>Inl e\<close> of a sum type; every function that can raise
    returns \<open>pyerr + result\<close>.
  \<^item> The interpreter's own \<^verbatim>\<open>float(str)\<close> and \<^verbatim>\<open>repr(float)\<close> are parameters
    (\<open>float_str\<close>, \<open>repr_float\<close>) of the functions that call them.
\<close>

subsection \<open>Strings\<close>

datatype cp = L1 char | IDot | DotAbove

type_synonym ustr = "cp list"

text \<open>A text written in code points below 256.\<close>

abbreviation lat :: "string \<Rightarrow> ustr" where
  "lat s \<equiv> map L1 s"

text \<open>
  \<^verbatim>\<open>str.lower()\<close>. Below 256, A-Z and the Latin-1 capitals move up by 32; bit 5 of these
  code points is clear, so adding 32 sets it. U+0130 becomes the two code points U+0069
  and U+0307.
\<close>

definition is_upper :: "char \<Rightarrow> bool" where
  "is_upper c =
     (let n = (of_char c :: nat)
      in (65 \<le> n \<and> n \<le> 90) \<or> (192 \<le> n \<and> n \<le> 222 \<and> n \<noteq> 215))"

fun lower_char :: "char \<Rightarrow> char" where
  "lower_char (Char b0 b1 b2 b3 b4 b5 b6 b7) =
     (if is_upper (Char b0 b1 b2 b3 b4 b5 b6 b7) then Char b0 b1 b2 b3 b4 True b6 b7
      else Char b0 b1 b2 b3 b4 b5 b6 b7)"

fun lower_cp :: "cp \<Rightarrow> ustr" where
  "lower_cp (L1 c) = [L1 (lower_char c)]"
| "lower_cp IDot = [L1 CHR ''i'', DotAbove]"
| "lower_cp DotAbove = [DotAbove]"

definition lower :: "ustr \<Rightarrow> ustr" where
  "lower s = concat (map lower_cp s)"

text \<open>
  The lower-casing of one code point to one code point, by which a pattern compiled with
  \<^verbatim>\<open>re.IGNORECASE\<close> compares a character of the text: there U+0130 is U+0069.
\<close>

fun simple_lower :: "cp \<Rightarrow> cp" where
  "simple_lower (L1 c) = L1 (lower_char c)"
| "simple_lower IDot = L1 CHR ''i''"
| "simple_lower DotAbove = DotAbove"

text \<open>The whitespace of \<^verbatim>\<open>str.strip()\<close>, \<^verbatim>\<open>str.isspace()\<close> and the pattern \<^verbatim>\<open>\s\<close>.\<close>

fun is_space :: "cp \<Rightarrow> bool" where
  "is_space (L1 c) =
     ((of_char c :: nat) \<in> set [9, 10, 11, 12, 13, 28, 29, 30, 31, 32, 133, 160])"
| "is_space IDot = False"
| "is_space DotAbove = False"

definition strip :: "ustr \<Rightarrow> ustr" where
  "strip s = rev (dropWhile is_space (rev (dropWhile is_space s)))"

text \<open>\<^verbatim>\<open>p in s\<close> for two strings: \<open>p\<close> occurs in \<open>s\<close> as a contiguous block.\<close>

fun str_in :: "ustr \<Rightarrow> ustr \<Rightarrow> bool" where
  "str_in p [] = (p = [])"
| "str_in p (c # cs) = (prefix p (c # cs) \<or> str_in p cs)"

text \<open>\<^verbatim>\<open>s.replace(p, "")\<close>: every occurrence of \<open>p\<close>, left to right, is removed.\<close>

function str_remove :: "ustr \<Rightarrow> ustr \<Rightarrow> ustr" where
  "str_remove p [] = []"
| "str_remove p (c # cs) =
     (if p \<noteq> [] \<and> prefix p (c # cs) then str_remove p (drop (length p) (c # cs))
      else c # str_remove p cs)"
  by pat_completeness auto
termination
  by (relation "measure (\<lambda>(p, s). length s)") (auto simp: neq_Nil_conv)

subsection \<open>Values of the product record\<close>

text \<open>
  The values a decoded JSON nutrient table holds: \<^verbatim>\<open>None\<close>, a \<^verbatim>\<open>bool\<close>, an
  \<^verbatim>\<open>int\<close>, a \<^verbatim>\<open>float\<close> or a \<^verbatim>\<open>str\<close>.
\<close>

datatype pyval = PNone | PBool bool | PInt int | PFloat real | PStr ustr

datatype pyerr = TypeError | ValueError | OverflowError

text \<open>
  \<^verbatim>\<open>isinstance(v, (int, float))\<close>, with the number that a comparison reads; a
  \<^verbatim>\<open>bool\<close> is an \<^verbatim>\<open>int\<close>. The interpreter compares an \<^verbatim>\<open>int\<close> with a \<^verbatim>\<open>float\<close>
  exactly, with no conversion.
\<close>

fun num_of :: "pyval \<Rightarrow> real option" where
  "num_of (PBool b) = Some (if b then 1 else 0)"
| "num_of (PInt n) = Some (real_of_int n)"
| "num_of (PFloat x) = Some x"
| "num_of PNone = None"
| "num_of (PStr s) = None"

text \<open>\<^verbatim>\<open>v > x\<close> for a number \<open>x\<close>: \<^verbatim>\<open>None\<close> and strings raise \<^verbatim>\<open>TypeError\<close>.\<close>

definition py_gt :: "pyval \<Rightarrow> real \<Rightarrow> pyerr + bool" where
  "py_gt v x = (case num_of v of None \<Rightarrow> Inl TypeError | Some y \<Rightarrow> Inr (y > x))"

text \<open>
  \<^verbatim>\<open>float(i)\<close> for an \<^verbatim>\<open>int\<close>: the nearest float, a tie going to the even
  significand of 53 bits; \<^verbatim>\<open>OverflowError\<close> when the rounded number reaches \<open>2 ^ 1024\<close>.
  With \<open>e\<close> the number of bits beyond 53, the significand is \<open>\<bar>i\<bar> div 2 ^ e\<close> and the
  remainder decides the rounding; up to 53 bits \<open>e\<close> is 0 and the conversion is exact.
\<close>

fun bit_length :: "nat \<Rightarrow> nat" where
  "bit_length n = (if n = 0 then 0 else Suc (bit_length (n div 2)))"

declare bit_length.simps [simp del]

definition float_of_int :: "int \<Rightarrow> pyerr + real" where
  "float_of_int i =
     (let n = nat \<bar>i\<bar>;
          e = bit_length n - 53;
          q = n div 2 ^ e;
          r = n mod 2 ^ e;
          m = (if 2 * r > 2 ^ e \<or> (2 * r = 2 ^ e \<and> odd q) then q + 1 else q)
      in if m * 2 ^ e \<ge> 2 ^ 1024 then Inl OverflowError
         else Inr (real_of_int (sgn i * int (m * 2 ^ e))))"

text \<open>
  \<^verbatim>\<open>float(v)\<close>: a number converts; a string goes through the interpreter's parser
  \<open>float_str\<close>, whose failure is \<^verbatim>\<open>ValueError\<close>; \<^verbatim>\<open>None\<close> raises \<^verbatim>\<open>TypeError\<close>.
\<close>

fun py_float :: "(ustr \<Rightarrow> real option) \<Rightarrow> pyval \<Rightarrow> pyerr + real" where
  "py_float float_str (PStr s) =
     (case float_str s of None \<Rightarrow> Inl ValueError | Some x \<Rightarrow> Inr x)"
| "py_float float_str PNone = Inl TypeError"
| "py_float float_str (PBool b) = Inr (if b then 1 else 0)"
| "py_float float_str (PInt i) = float_of_int i"
| "py_float float_str (PFloat x) = Inr x"

text \<open>\<^verbatim>\<open>d.get(k, default)\<close> on a dictionary kept as an association list.\<close>

definition dict_get :: "('k \<times> 'v) list \<Rightarrow> 'k \<Rightarrow> 'v \<Rightarrow> 'v" where
  "dict_get d k dflt = (case map_of d k of None \<Rightarrow> dflt | Some v \<Rightarrow> v)"

subsection \<open>Serialising the nutrient table\<close>

text \<open>
  \<^verbatim>\<open>repr\<close> of a string: the quote is \<^verbatim>\<open>'\<close> unless the string holds \<^verbatim>\<open>'\<close> and no
  \<^verbatim>\<open>"\<close>; the quote and the backslash are escaped, tab, newline and carriage return
  become \<^verbatim>\<open>\t\<close>, \<^verbatim>\<open>\n\<close>, \<^verbatim>\<open>\r\<close>, and every other non-printable code point
  below 256 becomes \<^verbatim>\<open>\xNN\<close>. U+0130 and U+0307 are printable.
\<close>

definition hex_digit :: "nat \<Rightarrow> char" where
  "hex_digit n = ''0123456789abcdef'' ! n"

definition printable :: "char \<Rightarrow> bool" where
  "printable c =
     (let n = (of_char c :: nat)
      in (32 \<le> n \<and> n < 127) \<or> (160 < n \<and> n \<noteq> 173))"

definition repr_char :: "char \<Rightarrow> char \<Rightarrow> string" where
  "repr_char q c =
     (let n = (of_char c :: nat)
      in if c = q \<or> c = CHR 0x5C then [CHR 0x5C, c]
         else if n = 9 then [CHR 0x5C, CHR ''t'']
         else if n = 10 then [CHR 0x5C, CHR ''n'']
         else if n = 13 then [CHR 0x5C, CHR ''r'']
         else if printable c then [c]
         else [CHR 0x5C, CHR ''x'', hex_digit (n div 16), hex_digit (n mod 16)])"

fun repr_cp :: "char \<Rightarrow> cp \<Rightarrow> ustr" where
  "repr_cp q (L1 c) = lat (repr_char q c)"
| "repr_cp q IDot = [IDot]"
| "repr_cp q DotAbove = [DotAbove]"

definition repr_str :: "ustr \<Rightarrow> ustr" where
  "repr_str s =
     (let q = (if L1 CHR 0x27 \<in> set s \<and> L1 CHR 0x22 \<notin> set s then CHR 0x22 else CHR 0x27)
      in [L1 q] @ concat (map (repr_cp q) s) @ [L1 q])"

text \<open>\<^verbatim>\<open>repr\<close> of an \<^verbatim>\<open>int\<close>: its decimal digits, with a minus sign when negative.\<close>

fun repr_nat :: "nat \<Rightarrow> string" where
  "repr_nat n = (if n < 10 then [''0123456789'' ! n]
                 else repr_nat (n div 10) @ [''0123456789'' ! (n mod 10)])"

declare repr_nat.simps [simp del]

definition repr_int :: "int \<Rightarrow> ustr" where
  "repr_int i =
     lat (if i < 0 then CHR ''-'' # repr_nat (nat (- i)) else repr_nat (nat i))"

fun py_repr :: "(real \<Rightarrow> ustr) \<Rightarrow> pyval \<Rightarrow> ustr" where
  "py_repr repr_float PNone = lat ''None''"
| "py_repr repr_float (PBool b) = (if b then lat ''True'' else lat ''False'')"
| "py_repr repr_float (PInt i) = repr_int i"
| "py_repr repr_float (PFloat x) = repr_float x"
| "py_repr repr_float (PStr s) = repr_str s"

fun join :: "ustr \<Rightarrow> ustr list \<Rightarrow> ustr" where
  "join sep [] = []"
| "join sep [x] = x"
| "join sep (x # y # ys) = x @ sep @ join sep (y # ys)"

text \<open>\<^verbatim>\<open>str(d)\<close> of a dictionary with string keys, in insertion order.\<close>

definition str_dict :: "(real \<Rightarrow> ustr) \<Rightarrow> (ustr \<times> pyval) list \<Rightarrow> ustr" where
  "str_dict repr_float d =
     lat ''{'' @
     join (lat '', '') (map (\<lambda>(k, v). repr_str k @ lat '': '' @ py_repr repr_float v) d) @
     lat ''}''"

subsection \<open>The percentage pattern\<close>

text \<open>
  A backtracking matcher for the constructs of the pattern
  \<^verbatim>\<open>[^{}\'"]*(?:nuts|nut|walnut|almond|peanut|cashew|pistachio|hazelnut|pecan|macadamia)[^{}\'"]*?(\d+(?:\.\d+)?)\s*%\<close>
  compiled with \<^verbatim>\<open>re.IGNORECASE\<close>. A match state is the rest of the input and the text
  of group 1. \<open>rx_match r st\<close> lists the states after every way of matching \<open>r\<close>, in
  the order in which the backtracking engine tries them: the longest repetition first for
  a greedy star, the shortest first for a lazy one, the left alternative first. The head
  of the list is the match the engine reports.
\<close>

datatype cclass = NotQuoteBrace | Digit | Space

fun in_class :: "cclass \<Rightarrow> cp \<Rightarrow> bool" where
  "in_class NotQuoteBrace c = (c \<notin> set (lat [CHR ''{'', CHR ''}'', CHR 0x27, CHR 0x22]))"
| "in_class Digit c = (c \<in> set (lat ''0123456789''))"
| "in_class Space c = is_space c"

datatype rx =
    Lit ustr
  | Star cclass
  | LazyStar cclass
  | Plus cclass
  | Seq rx rx
  | Alt rx rx
  | Opt rx
  | Group rx

type_synonym mstate = "ustr \<times> ustr option"

fun star_greedy :: "cclass \<Rightarrow> ustr \<Rightarrow> ustr list" where
  "star_greedy k [] = [Nil]"
| "star_greedy k (c # cs) = (if in_class k c then star_greedy k cs @ [c # cs] else [c # cs])"

fun star_lazy :: "cclass \<Rightarrow> ustr \<Rightarrow> ustr list" where
  "star_lazy k [] = [Nil]"
| "star_lazy k (c # cs) = (c # cs) # (if in_class k c then star_lazy k cs else [])"

fun rx_match :: "rx \<Rightarrow> mstate \<Rightarrow> mstate list" where
  "rx_match (Lit p) (s, g) =
     (if length p \<le> length s \<and> map simple_lower (take (length p) s) = map simple_lower p
      then [(drop (length p) s, g)] else [])"
| "rx_match (Star k) (s, g) = map (\<lambda>s'. (s', g)) (star_greedy k s)"
| "rx_match (LazyStar k) (s, g) = map (\<lambda>s'. (s', g)) (star_lazy k s)"
| "rx_match (Plus k) (s, g) =
     (case s of [] \<Rightarrow> []
      | c # cs \<Rightarrow> if in_class k c then map (\<lambda>s'. (s', g)) (star_greedy k cs) else [])"
| "rx_match (Seq a b) st = concat (map (rx_match b) (rx_match a st))"
| "rx_match (Alt a b) st = rx_match a st @ rx_match b st"
| "rx_match (Opt a) st = rx_match a st @ [st]"
| "rx_match (Group a) (s, g) =
     map (\<lambda>(s', g'). (s', Some (take (length s - length s') s))) (rx_match a (s, g))"

text \<open>
  \<^verbatim>\<open>re.findall\<close> for a pattern with one group: scan from the left, at each position take
  the first match, record its group and go on after the match; where nothing matches,
  move one character on. The nut pattern needs a nut word, a digit and a percent sign, so
  it never matches the empty text, and the branch for a match that consumes nothing is
  there only to make the function total.
\<close>

function findall :: "rx \<Rightarrow> ustr \<Rightarrow> ustr list" where
  "findall r s =
     (case rx_match r (s, None) of
        [] \<Rightarrow> (case s of [] \<Rightarrow> [] | c # cs \<Rightarrow> findall r cs)
      | (s', g) # more \<Rightarrow>
          (case g of None \<Rightarrow> [] | Some t \<Rightarrow> t) #
          (if length s' < length s then findall r s'
           else (case s of [] \<Rightarrow> [] | c # cs \<Rightarrow> findall r cs)))"
  by pat_completeness auto
termination
  by (relation "measure (\<lambda>(r, s). length s)") auto

declare findall.simps [simp del]

definition nut_words :: rx where
  "nut_words =
     Alt (Lit (lat ''nuts'')) (Alt (Lit (lat ''nut'')) (Alt (Lit (lat ''walnut''))
     (Alt (Lit (lat ''almond'')) (Alt (Lit (lat ''peanut'')) (Alt (Lit (lat ''cashew''))
     (Alt (Lit (lat ''pistachio'')) (Alt (Lit (lat ''hazelnut'')) (Alt (Lit (lat ''pecan''))
     (Lit (lat ''macadamia''))))))))))"

definition nut_pattern :: rx where
  "nut_pattern =
     Seq (Star NotQuoteBrace) (Seq nut_words (Seq (LazyStar NotQuoteBrace)
       (Seq (Group (Seq (Plus Digit) (Opt (Seq (Lit (lat ''.'')) (Plus Digit)))))
         (Seq (Star Space) (Lit (lat ''%''))))))"

text \<open>
  \<^verbatim>\<open>float(t) > 0\<close> for a text \<open>t\<close> that group 1 matched, digits with an optional
  fraction. No such text makes \<^verbatim>\<open>float\<close> raise, so the handler of \<^verbatim>\<open>ValueError\<close>
  around the call is never entered. \<^verbatim>\<open>float\<close> rounds the decimal number that \<open>t\<close>
  writes to the nearest float, a tie going to the even significand: the result is 0.0
  when the number is at most \<open>2 ^ -1075\<close>, half the least positive float, and positive
  (or infinite) above that.
\<close>

fun digit_val :: "cp \<Rightarrow> nat" where
  "digit_val (L1 c) = of_char c - 48"
| "digit_val IDot = 0"
| "digit_val DotAbove = 0"

definition digits_val :: "ustr \<Rightarrow> nat" where
  "digits_val ds = foldl (\<lambda>a c. 10 * a + digit_val c) 0 ds"

definition decimal_value :: "ustr \<Rightarrow> real" where
  "decimal_value t =
     (let ip = takeWhile (\<lambda>c. c \<noteq> L1 CHR ''.'') t;
          fp = drop (length ip + 1) t
      in real (digits_val ip) + real (digits_val fp) / 10 ^ length fp)"

definition percentage_positive :: "ustr \<Rightarrow> bool" where
  "percentage_positive t = (decimal_value t > 1 / 2 ^ 1075)"

subsection \<open>Product records and profiles\<close>

text \<open>
  A product record as the catalogue returns it, with the fields that the analyser and the
  filter read (the barcode and the brand only appear in the result lines). A field that
  is absent is \<open>None\<close>; the code reads every field with
  \<^verbatim>\<open>product.get(key, default)\<close>. The nutrient table keeps its insertion order, which
  \<^verbatim>\<open>str\<close> follows.
\<close>

record product =
  product_name :: "ustr option"
  generic_name :: "ustr option"
  categories :: "ustr option"
  labels :: "ustr option"
  traces :: "ustr option"
  ingredients_text :: "ustr option"
  allergens_tags :: "ustr list option"
  labels_tags :: "ustr list option"
  categories_tags :: "ustr list option"
  additives_tags :: "ustr list option"
  ingredients_analysis_tags :: "ustr list option"
  nutriments :: "(ustr \<times> pyval) list option"

definition text_of :: "ustr option \<Rightarrow> ustr" where
  "text_of f = (case f of None \<Rightarrow> [] | Some s \<Rightarrow> s)"

definition tags_of :: "ustr list option \<Rightarrow> ustr list" where
  "tags_of f = (case f of None \<Rightarrow> [] | Some ts \<Rightarrow> ts)"

definition nutriments_of :: "product \<Rightarrow> (ustr \<times> pyval) list" where
  "nutriments_of p = (case nutriments p of None \<Rightarrow> [] | Some d \<Rightarrow> d)"

text \<open>
  The fields of the profile that the analyser reads (the profile name and the medical
  conditions are stored and shown, never consulted); a key missing from the stored
  profile reads as the empty list or dictionary.
\<close>

record profile =
  allergies :: "ustr list"
  intolerances :: "ustr list"
  nutrient_limits :: "(ustr \<times> real) list"
  dietary_preferences :: "(ustr \<times> bool) list"
  avoid_additives :: "ustr list"

text \<open>\<^verbatim>\<open>dietary_prefs.get(name, False)\<close>\<close>

definition pref :: "profile \<Rightarrow> ustr \<Rightarrow> bool" where
  "pref prof name = dict_get (dietary_preferences prof) name False"

text \<open>The warnings and recommendations, by their format string and its arguments.\<close>

datatype warning =
    AllergyWarning ustr
  | IntoleranceWarning ustr
  | HighNutrient ustr pyval real
  | StatusUnknownExplicit ustr
  | NotDiet ustr ustr
  | StatusUnknownInsufficient ustr bool
  | AvoidedAdditive ustr

datatype recommendation = LowSugarAlternative | LowSaltAlternative

subsection \<open>Nut detection\<close>

text \<open>
  The block that \<^verbatim>\<open>analyze_product_safety\<close> and \<^verbatim>\<open>meets_nutrient_filters\<close> both
  carry, word for word; the definitions are named after its variables.
\<close>

definition nuts_keywords :: "ustr list" where
  "nuts_keywords =
     (map lat [''nuts'', ''nut'', ''almond'', ''walnut'', ''peanut'', ''cashew'',
      ''pistachio'', ''hazelnut'', ''pecan'', ''macadamia'', ''brazil nut'',
      ''pine nut'', ''chestnut'', ''beechnut'', ''hickory nut'',
      ''may contain nuts'', ''may contain nut'', ''tree nuts''])"

definition has_keyword :: "ustr \<Rightarrow> bool" where
  "has_keyword t = list_ex (\<lambda>nut. str_in nut t) nuts_keywords"

definition has_nut_allergen :: "product \<Rightarrow> bool" where
  "has_nut_allergen p =
     list_ex (\<lambda>allergen. str_in (lat ''nut'') (lower allergen)) (tags_of (allergens_tags p))"

definition has_nut_ingredient :: "product \<Rightarrow> bool" where
  "has_nut_ingredient p = has_keyword (lower (text_of (ingredients_text p)))"

definition nutriments_str :: "(real \<Rightarrow> ustr) \<Rightarrow> product \<Rightarrow> ustr" where
  "nutriments_str repr_float p = lower (str_dict repr_float (nutriments_of p))"

definition nuts_percentage_matches :: "ustr \<Rightarrow> ustr list" where
  "nuts_percentage_matches t = findall nut_pattern t"

definition has_nut_in_nutriments :: "(real \<Rightarrow> ustr) \<Rightarrow> product \<Rightarrow> bool" where
  "has_nut_in_nutriments repr_float p =
     (let t = nutriments_str repr_float p
      in if has_keyword t
         then (if nuts_percentage_matches t \<noteq> []
               then list_ex (\<lambda>percentage_str. percentage_positive percentage_str)
                      (nuts_percentage_matches t)
               else list_ex (\<lambda>phrase. str_in phrase t)
                      (map lat [''may contain nuts'', ''may contain nut'', ''contains nuts'',
                       ''contains nut'']))
         else False)"

definition has_nut_in_additional_fields :: "product \<Rightarrow> bool" where
  "has_nut_in_additional_fields p =
     (list_ex (\<lambda>field. has_keyword (lower (text_of field)))
        [product_name p, generic_name p, categories p, labels p, traces p]
      \<or> list_ex (\<lambda>field. list_ex (\<lambda>item. has_keyword (lower item)) (tags_of field))
        [ingredients_analysis_tags p, categories_tags p, labels_tags p])"

definition contains_nuts :: "(real \<Rightarrow> ustr) \<Rightarrow> product \<Rightarrow> bool" where
  "contains_nuts repr_float p =
     (has_nut_allergen p \<or> has_nut_ingredient p \<or> has_nut_in_nutriments repr_float p
      \<or> has_nut_in_additional_fields p)"

subsection \<open>The safety analyser\<close>

text \<open>
  The running state of \<^verbatim>\<open>analyze_product_safety\<close> is the pair of \<^verbatim>\<open>is_safe\<close> and
  \<^verbatim>\<open>warnings\<close>; each loop body takes it and returns it updated.
\<close>

type_synonym astate = "bool \<times> warning list"

definition check_allergy :: "(real \<Rightarrow> ustr) \<Rightarrow> product \<Rightarrow> ustr \<Rightarrow> astate \<Rightarrow> astate" where
  "check_allergy repr_float p allergy st =
     (let allergy_lower = lower allergy
      in if allergy_lower \<in> set (map lat [''nuts'', ''nut'', ''tree nuts''])
         then (if contains_nuts repr_float p
               then (False, snd st @ [AllergyWarning allergy]) else st)
         else (if list_ex (\<lambda>allergen. str_in allergy_lower (lower allergen))
                    (tags_of (allergens_tags p))
                  \<or> str_in allergy_lower (lower (text_of (ingredients_text p)))
               then (False, snd st @ [AllergyWarning allergy]) else st))"

definition check_intolerance :: "product \<Rightarrow> bool \<Rightarrow> ustr \<Rightarrow> astate \<Rightarrow> astate" where
  "check_intolerance p strict_mode intolerance st =
     (if str_in (lower intolerance) (lower (text_of (ingredients_text p)))
      then ((if strict_mode then False else fst st), snd st @ [IntoleranceWarning intolerance])
      else st)"

definition limit_value :: "product \<Rightarrow> ustr \<Rightarrow> pyval" where
  "limit_value p nutrient =
     dict_get (nutriments_of p) nutrient
       (dict_get (nutriments_of p) (str_remove (lat ''_100g'') nutrient) (PInt 0))"

definition check_nutrient_limit ::
  "product \<Rightarrow> bool \<Rightarrow> ustr \<times> real \<Rightarrow> astate \<Rightarrow> astate" where
  "check_nutrient_limit p strict_mode nl st =
     (let nutrient = fst nl; limit = snd nl; v = limit_value p nutrient
      in case num_of v of
           None \<Rightarrow> st
         | Some x \<Rightarrow>
             if x > limit
             then ((if strict_mode then False else fst st),
                   snd st @ [HighNutrient nutrient v limit])
             else st)"

text \<open>
  \<^verbatim>\<open>check_diet_status\<close>: the explicit disclosure first, then the label, then the first
  indicator found in the ingredients text, then the length of the text. It returns its
  verdict and the warnings with what it appended.
\<close>

definition check_diet_status ::
  "product \<Rightarrow> bool \<Rightarrow> ustr \<Rightarrow> ustr list \<Rightarrow> warning list \<Rightarrow> bool \<times> warning list" where
  "check_diet_status p strict_mode diet_type non_diet_indicators warnings =
     (let itext = lower (text_of (ingredients_text p));
          is_explicitly_labeled =
            list_ex (\<lambda>label. str_in diet_type (lower label)) (tags_of (labels_tags p))
      in if str_in (diet_type @ (lat '' status unknown'')) (lower itext)
         then (False, warnings @ [StatusUnknownExplicit diet_type])
         else if is_explicitly_labeled then (True, warnings)
         else (case find (\<lambda>indicator. str_in indicator (lower itext)) non_diet_indicators of
                 Some indicator \<Rightarrow> (False, warnings @ [NotDiet diet_type indicator])
               | None \<Rightarrow>
                   if itext = [] \<or> length (strip itext) < 20
                   then (\<not> strict_mode,
                         warnings @ [StatusUnknownInsufficient diet_type strict_mode])
                   else (True, warnings)))"

definition non_vegan_indicators :: "ustr list" where
  "non_vegan_indicators =
     (map lat [''milk'', ''egg'', ''meat'', ''fish'', ''honey'', ''gelatin'', ''whey'', ''casein'',
      ''dairy'', ''cheese'', ''butter'', ''cream'', ''lactose'', ''chicken'', ''beef'',
      ''pork'', ''bacon'', ''lard''])"

definition non_vegetarian_indicators :: "ustr list" where
  "non_vegetarian_indicators =
     (map lat [''meat'', ''fish'', ''chicken'', ''beef'', ''pork'', ''bacon'', ''lard'', ''gelatin'',
      ''anchovies'', ''tuna'', ''salmon'', ''cod''])"

definition check_diet ::
  "product \<Rightarrow> bool \<Rightarrow> profile \<Rightarrow> ustr \<Rightarrow> ustr list \<Rightarrow> astate \<Rightarrow> astate" where
  "check_diet p strict_mode prof diet_type indicators st =
     (if pref prof diet_type
      then (case check_diet_status p strict_mode diet_type indicators (snd st) of
              (ok, ws) \<Rightarrow> ((if ok then fst st else False), ws))
      else st)"

definition check_additive :: "product \<Rightarrow> bool \<Rightarrow> ustr \<Rightarrow> astate \<Rightarrow> astate" where
  "check_additive p strict_mode avoided st =
     (if list_ex (\<lambda>tag. str_in (lower avoided) (lower tag)) (tags_of (additives_tags p))
      then ((if strict_mode then False else fst st), snd st @ [AvoidedAdditive avoided])
      else st)"

text \<open>
  The recommendations: \<^verbatim>\<open>prefs.get("low_sugar", False) and nutriments.get("sugars_100g", 0) > 5\<close>
  and the same for salt with 1.5. The comparison is evaluated only when the preference
  is set, and raises on a value that is not a number.
\<close>

definition recommend_if ::
  "profile \<Rightarrow> product \<Rightarrow> ustr \<Rightarrow> ustr \<Rightarrow> real \<Rightarrow> pyerr + bool" where
  "recommend_if prof p name key bound =
     (if pref prof name then py_gt (dict_get (nutriments_of p) key (PInt 0)) bound
      else Inr False)"

definition generate_recommendations :: "profile \<Rightarrow> product \<Rightarrow> pyerr + recommendation list" where
  "generate_recommendations prof p =
     (case recommend_if prof p (lat ''low_sugar'') (lat ''sugars_100g'') 5 of
        Inl e \<Rightarrow> Inl e
      | Inr sugar \<Rightarrow>
          (case recommend_if prof p (lat ''low_salt'') (lat ''salt_100g'') 1.5 of
             Inl e \<Rightarrow> Inl e
           | Inr salt \<Rightarrow>
               Inr ((if sugar then [LowSugarAlternative] else []) @
                    (if salt then [LowSaltAlternative] else []))))"

definition run_checks :: "(real \<Rightarrow> ustr) \<Rightarrow> profile \<Rightarrow> product \<Rightarrow> bool \<Rightarrow> astate" where
  "run_checks repr_float prof p strict_mode =
     (let s1 = fold (check_allergy repr_float p) (allergies prof) (True, []);
          s2 = fold (check_intolerance p strict_mode) (intolerances prof) s1;
          s3 = fold (check_nutrient_limit p strict_mode) (nutrient_limits prof) s2;
          s4 = check_diet p strict_mode prof (lat ''vegan'') non_vegan_indicators s3;
          s5 = check_diet p strict_mode prof (lat ''vegetarian'') non_vegetarian_indicators s4
      in fold (check_additive p strict_mode) (avoid_additives prof) s5)"

type_synonym verdict = "bool \<times> warning list \<times> recommendation list"

definition analyze_product_safety ::
  "(real \<Rightarrow> ustr) \<Rightarrow> profile option \<Rightarrow> product \<Rightarrow> bool \<Rightarrow> pyerr + verdict" where
  "analyze_product_safety repr_float USER_PROFILE p strict_mode =
     (case USER_PROFILE of
        None \<Rightarrow> Inr (True, [], [])
      | Some prof \<Rightarrow>
          (case run_checks repr_float prof p strict_mode of
             (is_safe, warnings) \<Rightarrow>
               (case generate_recommendations prof p of
                  Inl e \<Rightarrow> Inl e
                | Inr recommendations \<Rightarrow> Inr (is_safe, warnings, recommendations))))"

subsection \<open>The search filter\<close>

text \<open>The filter parameters of one call of \<^verbatim>\<open>search_food_product\<close>.\<close>

record filters =
  low_fat :: bool
  low_fiber :: bool
  low_sugar :: bool
  low_salt :: bool
  no_nuts :: bool
  max_calories :: "real option"
  min_calories :: "real option"
  max_fat :: "real option"
  max_fiber :: "real option"
  min_fiber :: "real option"
  max_sugar :: "real option"
  max_salt :: "real option"
  min_protein :: "real option"
  max_protein :: "real option"

text \<open>
  \<^verbatim>\<open>max_X if max_X is not None else (default if low_X else None)\<close>, the bound that each
  of the four shorthands resolves to.
\<close>

definition default_limit :: "real option \<Rightarrow> bool \<Rightarrow> real \<Rightarrow> real option" where
  "default_limit explicit low dflt =
     (case explicit of Some m \<Rightarrow> Some m | None \<Rightarrow> (if low then Some dflt else None))"

definition fat_limit :: "filters \<Rightarrow> real option" where
  "fat_limit f = default_limit (max_fat f) (low_fat f) 3.0"

definition fiber_limit :: "filters \<Rightarrow> real option" where
  "fiber_limit f = default_limit (max_fiber f) (low_fiber f) 3.0"

definition sugar_limit :: "filters \<Rightarrow> real option" where
  "sugar_limit f = default_limit (max_sugar f) (low_sugar f) 5.0"

definition salt_limit :: "filters \<Rightarrow> real option" where
  "salt_limit f = default_limit (max_salt f) (low_salt f) 0.3"

datatype reason =
    ContainsNuts
  | OverLimit ustr pyval real
  | ProteinBelow real real
  | ProteinAbove real real
  | CaloriesBelow pyval real
  | FiberBelow pyval real

text \<open>\<^verbatim>\<open>nutriments.get(key1, nutriments.get(key2, None))\<close>\<close>

definition resolve :: "(ustr \<times> pyval) list \<Rightarrow> ustr \<Rightarrow> ustr \<Rightarrow> pyval" where
  "resolve n key1 key2 = dict_get n key1 (dict_get n key2 PNone)"

text \<open>
  The loop over the five maxima: the first value above its limit is the reason returned;
  \<^verbatim>\<open>float(value)\<close> is called on every value that is not \<^verbatim>\<open>None\<close> and may raise.
\<close>

fun check_limits ::
  "(ustr \<Rightarrow> real option) \<Rightarrow> (ustr \<times> pyval) list \<Rightarrow>
   (real option \<times> ustr \<times> ustr \<times> ustr) list \<Rightarrow> pyerr + reason option" where
  "check_limits float_str n [] = Inr None"
| "check_limits float_str n ((limit, key1, key2, name) # rest) =
     (case limit of
        None \<Rightarrow> check_limits float_str n rest
      | Some l \<Rightarrow>
          (let v = resolve n key1 key2
           in if v = PNone then check_limits float_str n rest
              else (case py_float float_str v of
                      Inl e \<Rightarrow> Inl e
                    | Inr x \<Rightarrow> if x > l then Inr (Some (OverLimit name v l))
                               else check_limits float_str n rest)))"

definition limits :: "filters \<Rightarrow> (real option \<times> ustr \<times> ustr \<times> ustr) list" where
  "limits f =
     [(max_calories f, lat ''energy-kcal_100g'', lat ''energy-kcal'', lat ''Calories''),
      (fat_limit f, lat ''fat_100g'', lat ''fat'', lat ''Fat''),
      (fiber_limit f, lat ''fiber_100g'', lat ''fiber'', lat ''Fiber''),
      (sugar_limit f, lat ''sugars_100g'', lat ''sugars'', lat ''Sugar''),
      (salt_limit f, lat ''salt_100g'', lat ''salt'', lat ''Salt'')]"

text \<open>
  The protein bounds: the value is converted with \<^verbatim>\<open>float\<close> whenever it is present,
  whether or not a protein bound is set.
\<close>

definition check_protein ::
  "(ustr \<Rightarrow> real option) \<Rightarrow> filters \<Rightarrow> (ustr \<times> pyval) list \<Rightarrow> pyerr + reason option" where
  "check_protein float_str f n =
     (let v = resolve n (lat ''proteins_100g'') (lat ''proteins'')
      in if v = PNone then Inr None
         else (case py_float float_str v of
                 Inl e \<Rightarrow> Inl e
               | Inr x \<Rightarrow>
                   (case min_protein f of
                      Some l \<Rightarrow> if x < l then Inr (Some (ProteinBelow x l))
                                else (case max_protein f of
                                        Some u \<Rightarrow> if x > u then Inr (Some (ProteinAbove x u))
                                                  else Inr None
                                      | None \<Rightarrow> Inr None)
                    | None \<Rightarrow>
                        (case max_protein f of
                           Some u \<Rightarrow> if x > u then Inr (Some (ProteinAbove x u)) else Inr None
                         | None \<Rightarrow> Inr None))))"

definition check_minimum ::
  "(ustr \<Rightarrow> real option) \<Rightarrow> real option \<Rightarrow> pyval \<Rightarrow> (pyval \<Rightarrow> real \<Rightarrow> reason) \<Rightarrow>
   pyerr + reason option" where
  "check_minimum float_str limit v mk =
     (case limit of
        None \<Rightarrow> Inr None
      | Some l \<Rightarrow>
          if v = PNone then Inr None
          else (case py_float float_str v of
                  Inl e \<Rightarrow> Inl e
                | Inr x \<Rightarrow> if x < l then Inr (Some (mk v l)) else Inr None))"

text \<open>
  \<^verbatim>\<open>meets_nutrient_filters\<close>: the nut check, the five maxima, protein, the calorie
  minimum, the fibre minimum; the first failure is returned with its reason.
\<close>

definition meets_nutrient_filters ::
  "(ustr \<Rightarrow> real option) \<Rightarrow> (real \<Rightarrow> ustr) \<Rightarrow> filters \<Rightarrow> product \<Rightarrow>
   pyerr + (bool \<times> reason option)" where
  "meets_nutrient_filters float_str repr_float f p =
     (let n = nutriments_of p
      in if no_nuts f \<and> contains_nuts repr_float p then Inr (False, Some ContainsNuts)
         else (case check_limits float_str n (limits f) of
                 Inl e \<Rightarrow> Inl e
               | Inr (Some r) \<Rightarrow> Inr (False, Some r)
               | Inr None \<Rightarrow>
           (case check_protein float_str f n of
                 Inl e \<Rightarrow> Inl e
               | Inr (Some r) \<Rightarrow> Inr (False, Some r)
               | Inr None \<Rightarrow>
           (case check_minimum float_str (min_calories f)
                   (resolve n (lat ''energy-kcal_100g'') (lat ''energy-kcal'')) CaloriesBelow of
                 Inl e \<Rightarrow> Inl e
               | Inr (Some r) \<Rightarrow> Inr (False, Some r)
               | Inr None \<Rightarrow>
           (case check_minimum float_str (min_fiber f)
                   (resolve n (lat ''fiber_100g'') (lat ''fiber'')) FiberBelow of
                 Inl e \<Rightarrow> Inl e
               | Inr (Some r) \<Rightarrow> Inr (False, Some r)
               | Inr None \<Rightarrow> Inr (True, None))))))"

definition has_nutrient_filters :: "filters \<Rightarrow> bool" where
  "has_nutrient_filters f =
     (low_fat f \<or> low_fiber f \<or> low_sugar f \<or> low_salt f \<or> no_nuts f
      \<or> max_calories f \<noteq> None \<or> min_calories f \<noteq> None \<or> fat_limit f \<noteq> None
      \<or> fiber_limit f \<noteq> None \<or> min_fiber f \<noteq> None \<or> sugar_limit f \<noteq> None
      \<or> salt_limit f \<noteq> None \<or> min_protein f \<noteq> None \<or> max_protein f \<noteq> None)"

text \<open>
  The candidate loop of \<^verbatim>\<open>search_food_product\<close>. Its state is the list of admitted
  products, each with its verdict, and the counter \<^verbatim>\<open>total_checked\<close>. A rejected
  product takes the \<^verbatim>\<open>continue\<close>, which goes to the next product without reaching
  the test \<^verbatim>\<open>len(filtered_results) >= 10 or total_checked >= 50\<close> at the end of the
  body. An exception leaves the loop.
\<close>

record loop_state =
  filtered_results :: "(product \<times> verdict) list"
  total_checked :: nat

fun search_loop ::
  "(ustr \<Rightarrow> real option) \<Rightarrow> (real \<Rightarrow> ustr) \<Rightarrow> profile option \<Rightarrow> filters \<Rightarrow>
   product list \<Rightarrow> loop_state \<Rightarrow> pyerr + loop_state" where
  "search_loop float_str repr_float prof f [] st = Inr st"
| "search_loop float_str repr_float prof f (p # ps) st =
     (let st1 = st\<lparr>total_checked := total_checked st + 1\<rparr>
      in case (if has_nutrient_filters f then meets_nutrient_filters float_str repr_float f p
               else Inr (True, None)) of
           Inl e \<Rightarrow> Inl e
         | Inr (meets_filters, filter_reason) \<Rightarrow>
             if \<not> meets_filters then search_loop float_str repr_float prof f ps st1
             else (case analyze_product_safety repr_float prof p False of
                     Inl e \<Rightarrow> Inl e
                   | Inr v \<Rightarrow>
                       (let st2 = st1\<lparr>filtered_results := filtered_results st1 @ [(p, v)]\<rparr>
                        in if length (filtered_results st2) \<ge> 10 \<or> total_checked st2 \<ge> 50
                           then Inr st2
                           else search_loop float_str repr_float prof f ps st2)))"

definition search_candidates ::
  "(ustr \<Rightarrow> real option) \<Rightarrow> (real \<Rightarrow> ustr) \<Rightarrow> profile option \<Rightarrow> filters \<Rightarrow>
   product list \<Rightarrow> pyerr + loop_state" where
  "search_candidates float_str repr_float prof f products =
     search_loop float_str repr_float prof f products
       \<lparr>filtered_results = [], total_checked = 0\<rparr>"

subsection \<open>Properties stated about the code\<close>

text \<open>
  A profile limit is violated when the value resolved for its nutrient is a number above
  the bound: the condition under which \<open>check_nutrient_limit\<close> appends its warning.
\<close>

definition violates_limit :: "product \<Rightarrow> ustr \<times> real \<Rightarrow> bool" where
  "violates_limit p nl =
     (case num_of (limit_value p (fst nl)) of None \<Rightarrow> False | Some x \<Rightarrow> x > snd nl)"

text \<open>A text mentions one of a list of words.\<close>

definition mentions_any :: "ustr list \<Rightarrow> ustr \<Rightarrow> bool" where
  "mentions_any ws t = list_ex (\<lambda>w. str_in w t) ws"

text \<open>An unsafe state carries at least one warning.\<close>

definition reasoned :: "astate \<Rightarrow> bool" where
  "reasoned st = (fst st \<or> snd st \<noteq> [])"

text \<open>The record with every field absent, the empty profile and the empty filter.\<close>

definition blank_product :: product where
  "blank_product =
     \<lparr>product_name = None, generic_name = None, categories = None, labels = None,
      traces = None, ingredients_text = None, allergens_tags = None, labels_tags = None,
      categories_tags = None, additives_tags = None, ingredients_analysis_tags = None,
      nutriments = None\<rparr>"

definition blank_profile :: profile where
  "blank_profile =
     \<lparr>allergies = [], intolerances = [], nutrient_limits = [], dietary_preferences = [],
      avoid_additives = []\<rparr>"

definition no_filters :: filters where
  "no_filters =
     \<lparr>low_fat = False, low_fiber = False, low_sugar = False, low_salt = False,
      no_nuts = False, max_calories = None, min_calories = None, max_fat = None,
      max_fiber = None, min_fiber = None, max_sugar = None, max_salt = None,
      min_protein = None, max_protein = None\<rparr>"

text \<open>A later state keeps an unsafe verdict and every warning of an earlier one.\<close>

definition extends :: "astate \<Rightarrow> astate \<Rightarrow> bool" where
  "extends st st' = ((fst st' \<longrightarrow> fst st) \<and> set (snd st) \<subseteq> set (snd st'))"

section \<open>Theorems\<close>

subsection \<open>Rules for evaluation\<close>

text \<open>
  The defining equation of \<open>lower_char\<close> is replaced in the simplifier by its two
  instances at bit 5: a code point with bit 5 set is left as it is, with no test of its
  range.
\<close>

lemma lower_char_bit5_set:
  "lower_char (Char b0 b1 b2 b3 b4 True b6 b7) = Char b0 b1 b2 b3 b4 True b6 b7"
  by simp

lemma lower_char_bit5_clear:
  "lower_char (Char b0 b1 b2 b3 b4 False b6 b7) =
     (if is_upper (Char b0 b1 b2 b3 b4 False b6 b7) then Char b0 b1 b2 b3 b4 True b6 b7
      else Char b0 b1 b2 b3 b4 False b6 b7)"
  by simp

declare lower_char.simps [simp del]
declare lower_char_bit5_set [simp]
declare lower_char_bit5_clear [simp]

lemmas limit_defs =
  limits_def fat_limit_def fiber_limit_def sugar_limit_def salt_limit_def default_limit_def






lemmas analyser_defs =
  analyze_product_safety_def run_checks_def check_allergy_def check_intolerance_def
  check_nutrient_limit_def check_diet_def check_diet_status_def check_additive_def
  generate_recommendations_def recommend_if_def pref_def dict_get_def limit_value_def
  py_gt_def text_of_def tags_of_def nutriments_of_def blank_product_def blank_profile_def
  lower_def is_upper_def strip_def Let_def
  non_vegan_indicators_def non_vegetarian_indicators_def

subsection \<open>Warnings and the verdict\<close>

lemma reasoned_check_allergy: "reasoned st \<Longrightarrow> reasoned (check_allergy rf p a st)"
  by (simp add: reasoned_def check_allergy_def Let_def)

lemma reasoned_check_intolerance: "reasoned st \<Longrightarrow> reasoned (check_intolerance p m a st)"
  by (simp add: reasoned_def check_intolerance_def)

lemma reasoned_check_nutrient_limit:
  "reasoned st \<Longrightarrow> reasoned (check_nutrient_limit p m nl st)"
  by (simp add: reasoned_def check_nutrient_limit_def Let_def split: option.splits)

lemma reasoned_check_additive: "reasoned st \<Longrightarrow> reasoned (check_additive p m a st)"
  by (simp add: reasoned_def check_additive_def)

lemma check_diet_status_cases:
  "check_diet_status p m d inds ws = (True, ws)
   \<or> (\<exists>w. check_diet_status p m d inds ws = (True, ws @ [w]))
   \<or> (\<exists>w. check_diet_status p m d inds ws = (False, ws @ [w]))"
  by (simp add: check_diet_status_def Let_def split: option.splits)

lemma reasoned_check_diet: "reasoned st \<Longrightarrow> reasoned (check_diet p m prof d inds st)"
  using check_diet_status_cases [of p m d inds "snd st"]
  by (auto simp: reasoned_def check_diet_def)

lemma reasoned_fold:
  "(\<And>x s. reasoned s \<Longrightarrow> reasoned (f x s)) \<Longrightarrow> reasoned st \<Longrightarrow> reasoned (fold f xs st)"
  by (induction xs arbitrary: st) auto

lemma reasoned_run_checks: "reasoned (run_checks rf prof p m)"
proof -
  have "reasoned (True, [])" by (simp add: reasoned_def)
  then show ?thesis
    unfolding run_checks_def Let_def
    by (intro reasoned_fold reasoned_check_diet reasoned_check_allergy
          reasoned_check_intolerance reasoned_check_nutrient_limit reasoned_check_additive)
qed

text \<open>
  C4. With no active profile the analyser returns \<^verbatim>\<open>is_safe = True\<close> with no warning
  and no recommendation, for every record and in both modes.
\<close>

theorem no_profile_is_safe:
  "analyze_product_safety repr_float None p strict_mode = Inr (True, [], [])"
  by (simp add: analyze_product_safety_def)

text \<open>
  C10. Whenever the analyser returns \<^verbatim>\<open>is_safe = False\<close> under an active profile, its
  list of warnings is not empty.
\<close>

theorem unsafe_has_warning:
  assumes "analyze_product_safety repr_float (Some prof) p strict_mode = Inr (False, ws, recs)"
  shows "ws \<noteq> []"
proof -
  from assms have "run_checks repr_float prof p strict_mode = (False, ws)"
    by (auto simp: analyze_product_safety_def split: prod.splits sum.splits)
  with reasoned_run_checks [of repr_float prof p strict_mode] show ?thesis
    by (simp add: reasoned_def)
qed

theorem unsafe_has_warning_witness:
  "analyze_product_safety (\<lambda>x. []) (Some (blank_profile\<lparr>allergies := [lat ''Milk'']\<rparr>))
     (blank_product\<lparr>ingredients_text := Some (lat ''Sugar, MILK powder'')\<rparr>) False
   = Inr (False, [AllergyWarning (lat ''Milk'')], []) \<and> [AllergyWarning (lat ''Milk'')] \<noteq> []"
proof -
  have run: "analyze_product_safety (\<lambda>x. []) (Some (blank_profile\<lparr>allergies := [lat ''Milk'']\<rparr>))
     (blank_product\<lparr>ingredients_text := Some (lat ''Sugar, MILK powder'')\<rparr>) False
   = Inr (False, [AllergyWarning (lat ''Milk'')], [])"
    by (simp add: analyser_defs)
  from unsafe_has_warning [OF run] run show ?thesis by simp
qed

subsection \<open>Profile nutrient limits\<close>

lemma extends_refl: "extends st st"
  by (simp add: extends_def)

lemma extends_trans: "extends a b \<Longrightarrow> extends b c \<Longrightarrow> extends a c"
  by (auto simp: extends_def)

lemma extends_check_intolerance: "extends st (check_intolerance p m a st)"
  by (auto simp: extends_def check_intolerance_def)

lemma extends_check_nutrient_limit: "extends st (check_nutrient_limit p m nl st)"
  by (auto simp: extends_def check_nutrient_limit_def Let_def split: option.splits)

lemma extends_check_additive: "extends st (check_additive p m a st)"
  by (auto simp: extends_def check_additive_def)

lemma extends_check_diet: "extends st (check_diet p m prof d inds st)"
  using check_diet_status_cases [of p m d inds "snd st"]
  by (auto simp: extends_def check_diet_def)

lemma extends_fold:
  "(\<And>x s. extends s (f x s)) \<Longrightarrow> extends st (fold f xs st)"
proof (induction xs arbitrary: st)
  case Nil
  show ?case by (simp add: extends_refl)
next
  case (Cons x xs)
  have "extends st (f x st)" by (rule Cons.prems)
  moreover have "extends (f x st) (fold f xs (f x st))" by (rule Cons.IH) (rule Cons.prems)
  ultimately show ?case by (auto intro: extends_trans)
qed

lemma limit_hit_step:
  assumes "violates_limit p nl"
  shows "HighNutrient (fst nl) (limit_value p (fst nl)) (snd nl)
           \<in> set (snd (check_nutrient_limit p m nl st))
         \<and> (m \<longrightarrow> \<not> fst (check_nutrient_limit p m nl st))"
  using assms
  by (auto simp: violates_limit_def check_nutrient_limit_def Let_def split: option.splits)

lemma limit_hit_fold:
  assumes "nl \<in> set xs" and "violates_limit p nl"
  shows "HighNutrient (fst nl) (limit_value p (fst nl)) (snd nl)
           \<in> set (snd (fold (check_nutrient_limit p m) xs st))
         \<and> (m \<longrightarrow> \<not> fst (fold (check_nutrient_limit p m) xs st))"
  using assms(1)
proof (induction xs arbitrary: st)
  case Nil
  then show ?case by simp
next
  case (Cons x xs)
  show ?case
  proof (cases "nl = x")
    case True
    have "extends (check_nutrient_limit p m x st)
            (fold (check_nutrient_limit p m) xs (check_nutrient_limit p m x st))"
      by (rule extends_fold) (rule extends_check_nutrient_limit)
    with limit_hit_step [OF assms(2), of m st] True show ?thesis
      by (auto simp: extends_def)
  next
    case False
    with Cons.prems have "nl \<in> set xs" by simp
    from Cons.IH [OF this] show ?thesis by simp
  qed
qed

lemma limit_hit_run_checks:
  assumes "nl \<in> set (nutrient_limits prof)" and "violates_limit p nl"
  shows "HighNutrient (fst nl) (limit_value p (fst nl)) (snd nl)
           \<in> set (snd (run_checks rf prof p m))
         \<and> (m \<longrightarrow> \<not> fst (run_checks rf prof p m))"
proof -
  define s2 where "s2 = fold (check_intolerance p m) (intolerances prof)
      (fold (check_allergy rf p) (allergies prof) (True, []))"
  define s3 where "s3 = fold (check_nutrient_limit p m) (nutrient_limits prof) s2"
  define s4 where "s4 = check_diet p m prof (lat ''vegan'') non_vegan_indicators s3"
  define s5 where "s5 = check_diet p m prof (lat ''vegetarian'') non_vegetarian_indicators s4"
  have run: "run_checks rf prof p m = fold (check_additive p m) (avoid_additives prof) s5"
    by (simp add: run_checks_def s2_def s3_def s4_def s5_def Let_def)
  have hit: "HighNutrient (fst nl) (limit_value p (fst nl)) (snd nl) \<in> set (snd s3)
             \<and> (m \<longrightarrow> \<not> fst s3)"
    unfolding s3_def by (rule limit_hit_fold [OF assms])
  have "extends s3 s4" unfolding s4_def by (rule extends_check_diet)
  moreover have "extends s4 s5" unfolding s5_def by (rule extends_check_diet)
  moreover have "extends s5 (run_checks rf prof p m)"
    unfolding run by (rule extends_fold) (rule extends_check_additive)
  ultimately have "extends s3 (run_checks rf prof p m)"
    by (blast intro: extends_trans)
  with hit show ?thesis by (auto simp: extends_def)
qed

text \<open>
  C3, as stated, fails in lenient mode: sugar at 12.5 against a profile limit of 5 gives
  the warning and leaves \<^verbatim>\<open>is_safe = True\<close>.
\<close>

theorem nutrient_limit_lenient_counterexample:
  "violates_limit (blank_product\<lparr>nutriments := Some [(lat ''sugars_100g'', PFloat 12.5)]\<rparr>)
     (lat ''sugars_100g'', 5)
   \<and> analyze_product_safety (\<lambda>x. [])
       (Some (blank_profile\<lparr>nutrient_limits := [(lat ''sugars_100g'', 5)]\<rparr>))
       (blank_product\<lparr>nutriments := Some [(lat ''sugars_100g'', PFloat 12.5)]\<rparr>) False
     = Inr (True, [HighNutrient (lat ''sugars_100g'') (PFloat 12.5) 5], [])"
  by (simp add: analyser_defs violates_limit_def)

text \<open>
  C3, amended. A violated profile limit appends its HIGH warning in both modes, and forces
  \<^verbatim>\<open>is_safe = False\<close> in strict mode.
\<close>

theorem nutrient_limit_strict_unsafe:
  assumes "nl \<in> set (nutrient_limits prof)" and "violates_limit p nl"
    and "analyze_product_safety repr_float (Some prof) p strict_mode = Inr (is_safe, ws, recs)"
  shows "HighNutrient (fst nl) (limit_value p (fst nl)) (snd nl) \<in> set ws
         \<and> (strict_mode \<longrightarrow> \<not> is_safe)"
proof -
  from assms(3) have "run_checks repr_float prof p strict_mode = (is_safe, ws)"
    by (auto simp: analyze_product_safety_def split: prod.splits sum.splits)
  with limit_hit_run_checks [OF assms(1,2), of repr_float strict_mode] show ?thesis
    by auto
qed

theorem nutrient_limit_strict_unsafe_witness:
  "(lat ''sugars_100g'', 5) \<in> set (nutrient_limits (blank_profile\<lparr>nutrient_limits := [(lat ''sugars_100g'', 5)]\<rparr>))
   \<and> violates_limit (blank_product\<lparr>nutriments := Some [(lat ''sugars'', PInt 12)]\<rparr>) (lat ''sugars_100g'', 5)
   \<and> analyze_product_safety (\<lambda>x. [])
       (Some (blank_profile\<lparr>nutrient_limits := [(lat ''sugars_100g'', 5)]\<rparr>))
       (blank_product\<lparr>nutriments := Some [(lat ''sugars'', PInt 12)]\<rparr>) True
     = Inr (False, [HighNutrient (lat ''sugars_100g'') (PInt 12) 5], [])
   \<and> HighNutrient (lat ''sugars_100g'') (PInt 12) 5 \<in> set [HighNutrient (lat ''sugars_100g'') (PInt 12) 5]"
proof -
  let ?prof = "blank_profile\<lparr>nutrient_limits := [(lat ''sugars_100g'', 5)]\<rparr>"
  let ?p = "blank_product\<lparr>nutriments := Some [(lat ''sugars'', PInt 12)]\<rparr>"
  have h1: "(lat ''sugars_100g'', 5) \<in> set (nutrient_limits ?prof)"
    by (simp add: blank_profile_def)
  have h2: "violates_limit ?p (lat ''sugars_100g'', 5)"
    by (simp add: analyser_defs violates_limit_def)
  have h3: "analyze_product_safety (\<lambda>x. []) (Some ?prof) ?p True
     = Inr (False, [HighNutrient (lat ''sugars_100g'') (PInt 12) 5], [])"
    by (simp add: analyser_defs)
  from nutrient_limit_strict_unsafe [OF h1 h2 h3] h1 h2 h3 show ?thesis by simp
qed

text \<open>
  C9. The recommendation reads the key \<^verbatim>\<open>sugars_100g\<close> only. A record that reports
  sugar under the unsuffixed key \<^verbatim>\<open>sugars\<close>, which the filter's resolution finds, gets
  no low-sugar suggestion at 10 g.
\<close>

theorem low_sugar_fallback_key_ignored:
  "resolve [(lat ''sugars'', PInt 10)] (lat ''sugars_100g'') (lat ''sugars'') = PInt 10
   \<and> analyze_product_safety (\<lambda>x. [])
       (Some (blank_profile\<lparr>dietary_preferences := [(lat ''low_sugar'', True)]\<rparr>))
       (blank_product\<lparr>nutriments := Some [(lat ''sugars'', PInt 10)]\<rparr>) False
     = Inr (True, [], [])"
  by (simp add: analyser_defs resolve_def)

subsection \<open>Diet status\<close>

lemma str_in_iff: "str_in p s \<longleftrightarrow> (\<exists>a b. s = a @ p @ b)"
proof (induction s)
  case Nil
  show ?case by auto
next
  case (Cons c cs)
  show ?case
  proof
    assume "str_in p (c # cs)"
    then consider "prefix p (c # cs)" | "str_in p cs" by auto
    then show "\<exists>a b. c # cs = a @ p @ b"
    proof cases
      case 1
      then obtain b where "c # cs = p @ b" by (auto simp: prefix_def)
      then have "c # cs = [] @ p @ b" by simp
      then show ?thesis by blast
    next
      case 2
      with Cons.IH obtain a b where "cs = a @ p @ b" by auto
      then have "c # cs = (c # a) @ p @ b" by simp
      then show ?thesis by blast
    qed
  next
    assume "\<exists>a b. c # cs = a @ p @ b"
    then obtain a b where ab: "c # cs = a @ p @ b" by blast
    show "str_in p (c # cs)"
    proof (cases a)
      case Nil
      with ab have "prefix p (c # cs)" by (simp add: prefix_def)
      then show ?thesis by simp
    next
      case (Cons x xs)
      with ab have "cs = xs @ p @ b" by simp
      with Cons.IH have "str_in p cs" by blast
      then show ?thesis by simp
    qed
  qed
qed

lemma str_in_lower:
  assumes "str_in q s" and "lower q = q"
  shows "str_in q (lower s)"
proof -
  from assms(1) obtain a b where "s = a @ q @ b" by (auto simp: str_in_iff)
  then have "lower s = lower a @ lower q @ lower b" by (simp add: lower_def)
  with assms(2) show ?thesis by (auto simp: str_in_iff)
qed

lemma lower_char_idem: "lower_char (lower_char c) = lower_char c"
  by (cases c) (simp add: lower_char.simps)

lemma lower_Cons: "lower (c # s) = lower_cp c @ lower s"
  by (simp add: lower_def)

lemma lower_append: "lower (a @ b) = lower a @ lower b"
  by (simp add: lower_def)

lemma lower_cp_idem: "lower (lower_cp c) = lower_cp c"
  by (cases c) (simp_all add: lower_def lower_char_idem)

lemma lower_idem: "lower (lower s) = lower s"
  by (induction s) (simp_all add: lower_Cons lower_append lower_cp_idem, simp add: lower_def)

lemma length_lower: "IDot \<notin> set s \<Longrightarrow> length (lower s) = length s"
proof (induction s)
  case Nil
  show ?case by (simp add: lower_def)
next
  case (Cons c s)
  then show ?case by (cases c) (simp_all add: lower_Cons)
qed




lemma length_strip: "length (strip s) \<le> length s"
proof -
  have "length (strip s) \<le> length (dropWhile is_space s)"
    unfolding strip_def using length_dropWhile_le [of is_space "rev (dropWhile is_space s)"]
    by simp
  also have "\<dots> \<le> length s" by (rule length_dropWhile_le)
  finally show ?thesis .
qed

text \<open>
  C5. When the ingredients text holds the phrase \<^verbatim>\<open><diet_type> status unknown\<close>, as
  written or after lower-casing, \<^verbatim>\<open>check_diet_status\<close> returns non-compliant and
  appends the status-unknown warning, whatever the label tags of the record are. The diet
  types the analyser passes, \<^verbatim>\<open>vegan\<close> and \<^verbatim>\<open>vegetarian\<close>, are in lower case.
\<close>

theorem status_unknown_beats_label:
  assumes "lower diet_type = diet_type"
    and "str_in (diet_type @ (lat '' status unknown'')) (text_of (ingredients_text p))
         \<or> str_in (diet_type @ (lat '' status unknown'')) (lower (text_of (ingredients_text p)))"
  shows "check_diet_status p strict_mode diet_type indicators ws
         = (False, ws @ [StatusUnknownExplicit diet_type])"
proof -
  have low: "lower (diet_type @ (lat '' status unknown'')) = diet_type @ (lat '' status unknown'')"
    using assms(1) by (simp add: lower_def is_upper_def)
  have "str_in (diet_type @ (lat '' status unknown'')) (lower (text_of (ingredients_text p)))"
    using assms(2) str_in_lower [OF _ low] by blast
  then have "str_in (diet_type @ (lat '' status unknown''))
               (lower (lower (text_of (ingredients_text p))))"
    by (simp add: lower_idem)
  then show ?thesis by (simp add: check_diet_status_def Let_def)
qed

theorem status_unknown_beats_label_witness:
  "lower (lat ''vegan'') = (lat ''vegan'')
   \<and> str_in ((lat ''vegan'') @ (lat '' status unknown''))
        (text_of (ingredients_text (blank_product\<lparr>ingredients_text := Some (lat ''oats; vegan status unknown''), labels_tags := Some [lat ''en:vegan'']\<rparr>)))
   \<and> list_ex (\<lambda>label. str_in (lat ''vegan'') (lower label))
        (tags_of (labels_tags (blank_product\<lparr>ingredients_text := Some (lat ''oats; vegan status unknown''), labels_tags := Some [lat ''en:vegan'']\<rparr>)))
   \<and> check_diet_status (blank_product\<lparr>ingredients_text := Some (lat ''oats; vegan status unknown''), labels_tags := Some [lat ''en:vegan'']\<rparr>)
        False (lat ''vegan'') non_vegan_indicators []
      = (False, [StatusUnknownExplicit (lat ''vegan'')])"
proof -
  let ?p = "blank_product\<lparr>ingredients_text := Some (lat ''oats; vegan status unknown''),
                          labels_tags := Some [lat ''en:vegan'']\<rparr>"
  have h1: "lower (lat ''vegan'') = (lat ''vegan'')" by (simp add: lower_def is_upper_def)
  have h2: "str_in ((lat ''vegan'') @ (lat '' status unknown'')) (text_of (ingredients_text ?p))"
    by (simp add: text_of_def blank_product_def)
  have h3: "list_ex (\<lambda>label. str_in (lat ''vegan'') (lower label)) (tags_of (labels_tags ?p))"
    by (simp add: tags_of_def blank_product_def lower_def is_upper_def)
  from status_unknown_beats_label [OF h1 disjI1 [OF h2], of False non_vegan_indicators "[]"]
    h1 h2 h3 show ?thesis by simp
qed

text \<open>
  C6, as stated, fails on a text that lower-casing lengthens. The text below has 19 code
  points, three of them U+0130; lower-cased it has 22. With no label, no status-unknown
  phrase and no indicator, \<^verbatim>\<open>check_diet_status\<close> returns compliant with no warning,
  in strict mode too.
\<close>

theorem short_text_lengthened_counterexample:
  "length ([IDot, L1 (CHR 0xC7), IDot] @ lat ''NDEK'' @ [IDot] @ lat ''LER: SU,TUZ'') < 20
   \<and> tags_of (labels_tags (blank_product\<lparr>ingredients_text :=
         Some ([IDot, L1 (CHR 0xC7), IDot] @ lat ''NDEK'' @ [IDot] @ lat ''LER: SU,TUZ'')\<rparr>)) = []
   \<and> \<not> str_in (lat ''vegan status unknown'')
         (lower ([IDot, L1 (CHR 0xC7), IDot] @ lat ''NDEK'' @ [IDot] @ lat ''LER: SU,TUZ''))
   \<and> \<not> mentions_any non_vegan_indicators
         (lower ([IDot, L1 (CHR 0xC7), IDot] @ lat ''NDEK'' @ [IDot] @ lat ''LER: SU,TUZ''))
   \<and> check_diet_status (blank_product\<lparr>ingredients_text :=
         Some ([IDot, L1 (CHR 0xC7), IDot] @ lat ''NDEK'' @ [IDot] @ lat ''LER: SU,TUZ'')\<rparr>)
         True (lat ''vegan'') non_vegan_indicators []
       = (True, [])"
  by (simp add: check_diet_status_def mentions_any_def text_of_def tags_of_def
        blank_product_def lower_def is_upper_def strip_def non_vegan_indicators_def Let_def)

text \<open>
  C6, amended. With no label tag naming the diet, no status-unknown phrase and no negative
  indicator in the lower-cased ingredients text, \<^verbatim>\<open>check_diet_status\<close> appends the
  insufficient-information warning and returns non-compliant in strict mode, compliant in
  lenient mode, whenever the lower-cased text, stripped of surrounding white space, is
  shorter than 20 characters: in particular for every text that is shorter than 20
  characters (the empty text included) and holds no U+0130.
\<close>

theorem insufficient_information:
  assumes "\<not> list_ex (\<lambda>label. str_in diet_type (lower label)) (tags_of (labels_tags p))"
    and "\<not> str_in (diet_type @ lat '' status unknown'') (lower (text_of (ingredients_text p)))"
    and "\<forall>indicator \<in> set indicators.
           \<not> str_in indicator (lower (text_of (ingredients_text p)))"
    and "length (strip (lower (text_of (ingredients_text p)))) < 20
         \<or> (length (text_of (ingredients_text p)) < 20
             \<and> IDot \<notin> set (text_of (ingredients_text p)))"
  shows "check_diet_status p strict_mode diet_type indicators ws
         = (\<not> strict_mode, ws @ [StatusUnknownInsufficient diet_type strict_mode])"
proof -
  let ?t = "lower (text_of (ingredients_text p))"
  have "find (\<lambda>indicator. str_in indicator (lower ?t)) indicators = None"
    using assms(3) by (simp add: find_None_iff lower_idem)
  moreover have "length (strip ?t) < 20"
    using length_strip [of ?t] assms(4) by (auto simp: length_lower)
  ultimately show ?thesis
    using assms(1,2) by (simp add: check_diet_status_def Let_def lower_idem)
qed

theorem insufficient_information_witness:
  "tags_of (labels_tags (blank_product\<lparr>ingredients_text := Some (lat ''Water, Salt'')\<rparr>)) = []
   \<and> \<not> str_in (lat ''vegan status unknown'') (lower (lat ''Water, Salt''))
   \<and> \<not> mentions_any non_vegan_indicators (lower (lat ''Water, Salt''))
   \<and> length (lat ''Water, Salt'') < 20
   \<and> IDot \<notin> set (lat ''Water, Salt'')
   \<and> check_diet_status (blank_product\<lparr>ingredients_text := Some (lat ''Water, Salt'')\<rparr>)
        True (lat ''vegan'') non_vegan_indicators []
       = (False, [StatusUnknownInsufficient (lat ''vegan'') True])
   \<and> check_diet_status (blank_product\<lparr>ingredients_text := Some (lat ''Water, Salt'')\<rparr>)
        False (lat ''vegan'') non_vegan_indicators []
       = (True, [StatusUnknownInsufficient (lat ''vegan'') False])"
proof -
  let ?p = "blank_product\<lparr>ingredients_text := Some (lat ''Water, Salt'')\<rparr>"
  have t: "text_of (ingredients_text ?p) = lat ''Water, Salt''"
    by (simp add: text_of_def blank_product_def)
  have l: "tags_of (labels_tags ?p) = []"
    by (simp add: tags_of_def blank_product_def)
  have h1: "\<not> list_ex (\<lambda>label. str_in (lat ''vegan'') (lower label)) (tags_of (labels_tags ?p))"
    unfolding l by simp
  have h2: "\<not> str_in (lat ''vegan'' @ lat '' status unknown'')
              (lower (text_of (ingredients_text ?p)))"
    unfolding t by (simp add: lower_def is_upper_def)
  have m: "\<not> mentions_any non_vegan_indicators (lower (lat ''Water, Salt''))"
    by (simp add: mentions_any_def lower_def is_upper_def non_vegan_indicators_def)
  then have h3: "\<forall>indicator \<in> set non_vegan_indicators.
              \<not> str_in indicator (lower (text_of (ingredients_text ?p)))"
    unfolding t by (simp add: mentions_any_def list_ex_iff)
  have h4: "length (strip (lower (text_of (ingredients_text ?p)))) < 20
         \<or> (length (text_of (ingredients_text ?p)) < 20
             \<and> IDot \<notin> set (text_of (ingredients_text ?p)))"
    unfolding t by simp
  have e: "lat ''vegan'' @ lat '' status unknown'' = lat ''vegan status unknown''"
    by simp
  from insufficient_information [OF h1 h2 h3 h4, of True "[]"]
       insufficient_information [OF h1 h2 h3 h4, of False "[]"] l h2 m
  show ?thesis unfolding t e by simp
qed

subsection \<open>Values that are not numbers\<close>

text \<open>
  C1. A nutrient value that is a string makes both operations raise instead of returning:
  the recommendation test of the analyser compares it with a number
  (\<^verbatim>\<open>TypeError\<close>, and the same for a value that is \<^verbatim>\<open>None\<close>), and the search filter
  passes it to \<^verbatim>\<open>float\<close>, here with a parser that rejects the text, as
  \<^verbatim>\<open>float("high")\<close> does (\<^verbatim>\<open>ValueError\<close>).
\<close>

theorem non_numeric_value_raises:
  "analyze_product_safety (\<lambda>x. [])
     (Some (blank_profile\<lparr>dietary_preferences := [(lat ''low_sugar'', True)]\<rparr>))
     (blank_product\<lparr>nutriments := Some [(lat ''sugars_100g'', PStr (lat ''high''))]\<rparr>) False
   = Inl TypeError
   \<and> analyze_product_safety (\<lambda>x. [])
     (Some (blank_profile\<lparr>dietary_preferences := [(lat ''low_salt'', True)]\<rparr>))
     (blank_product\<lparr>nutriments := Some [(lat ''salt_100g'', PNone)]\<rparr>) False
   = Inl TypeError
   \<and> meets_nutrient_filters (\<lambda>s. None) (\<lambda>x. []) (no_filters\<lparr>max_fat := Some 3.0\<rparr>)
       (blank_product\<lparr>nutriments := Some [(lat ''fat_100g'', PStr (lat ''high''))]\<rparr>)
     = Inl ValueError"
  by (simp add: analyser_defs meets_nutrient_filters_def no_filters_def limits_def
       fat_limit_def fiber_limit_def sugar_limit_def salt_limit_def default_limit_def resolve_def)

subsection \<open>The shorthands of the search filter\<close>

lemma meets_nutrient_filters_cong:
  assumes "no_nuts f = no_nuts g" and "limits f = limits g"
    and "min_protein f = min_protein g" and "max_protein f = max_protein g"
    and "min_calories f = min_calories g" and "min_fiber f = min_fiber g"
  shows "meets_nutrient_filters fs rf f p = meets_nutrient_filters fs rf g p"
  unfolding meets_nutrient_filters_def check_protein_def assms by (rule refl)

lemma search_loop_cong:
  assumes "\<And>p. meets_nutrient_filters fs rf f p = meets_nutrient_filters fs rf g p"
    and "has_nutrient_filters f = has_nutrient_filters g"
  shows "search_loop fs rf prof f ps st = search_loop fs rf prof g ps st"
proof (induction ps arbitrary: st)
  case Nil
  show ?case by simp
next
  case (Cons p ps)
  show ?case
    by (simp add: assms Cons.IH Let_def split: sum.splits prod.splits)
qed


lemma low_fat_default:
  "meets_nutrient_filters fs rf (f\<lparr>low_fat := True, max_fat := None\<rparr>) p
     = meets_nutrient_filters fs rf (f\<lparr>low_fat := False, max_fat := Some 3.0\<rparr>) p
   \<and> search_candidates fs rf prof (f\<lparr>low_fat := True, max_fat := None\<rparr>) ps
     = search_candidates fs rf prof (f\<lparr>low_fat := False, max_fat := Some 3.0\<rparr>) ps"
proof -
  have m: "meets_nutrient_filters fs rf (f\<lparr>low_fat := True, max_fat := None\<rparr>) q
     = meets_nutrient_filters fs rf (f\<lparr>low_fat := False, max_fat := Some 3.0\<rparr>) q" for q
    by (rule meets_nutrient_filters_cong) (simp_all add: limit_defs)
  have h: "has_nutrient_filters (f\<lparr>low_fat := True, max_fat := None\<rparr>)
     = has_nutrient_filters (f\<lparr>low_fat := False, max_fat := Some 3.0\<rparr>)"
    by (simp add: has_nutrient_filters_def limit_defs)
  show ?thesis
    unfolding search_candidates_def using m search_loop_cong [OF m h] by simp
qed

lemma low_fat_explicit:
  "fat_limit (f\<lparr>low_fat := True, max_fat := Some m\<rparr>) = Some m
   \<and> meets_nutrient_filters fs rf (f\<lparr>low_fat := True, max_fat := Some m\<rparr>) p
     = meets_nutrient_filters fs rf (f\<lparr>low_fat := False, max_fat := Some m\<rparr>) p
   \<and> search_candidates fs rf prof (f\<lparr>low_fat := True, max_fat := Some m\<rparr>) ps
     = search_candidates fs rf prof (f\<lparr>low_fat := False, max_fat := Some m\<rparr>) ps"
proof -
  have m: "meets_nutrient_filters fs rf (f\<lparr>low_fat := True, max_fat := Some m\<rparr>) q
     = meets_nutrient_filters fs rf (f\<lparr>low_fat := False, max_fat := Some m\<rparr>) q" for q
    by (rule meets_nutrient_filters_cong) (simp_all add: limit_defs)
  have h: "has_nutrient_filters (f\<lparr>low_fat := True, max_fat := Some m\<rparr>)
     = has_nutrient_filters (f\<lparr>low_fat := False, max_fat := Some m\<rparr>)"
    by (simp add: has_nutrient_filters_def limit_defs)
  show ?thesis
    unfolding search_candidates_def using m search_loop_cong [OF m h]
    by (simp add: limit_defs)
qed

lemma low_fiber_default:
  "meets_nutrient_filters fs rf (f\<lparr>low_fiber := True, max_fiber := None\<rparr>) p
     = meets_nutrient_filters fs rf (f\<lparr>low_fiber := False, max_fiber := Some 3.0\<rparr>) p
   \<and> search_candidates fs rf prof (f\<lparr>low_fiber := True, max_fiber := None\<rparr>) ps
     = search_candidates fs rf prof (f\<lparr>low_fiber := False, max_fiber := Some 3.0\<rparr>) ps"
proof -
  have m: "meets_nutrient_filters fs rf (f\<lparr>low_fiber := True, max_fiber := None\<rparr>) q
     = meets_nutrient_filters fs rf (f\<lparr>low_fiber := False, max_fiber := Some 3.0\<rparr>) q" for q
    by (rule meets_nutrient_filters_cong) (simp_all add: limit_defs)
  have h: "has_nutrient_filters (f\<lparr>low_fiber := True, max_fiber := None\<rparr>)
     = has_nutrient_filters (f\<lparr>low_fiber := False, max_fiber := Some 3.0\<rparr>)"
    by (simp add: has_nutrient_filters_def limit_defs)
  show ?thesis
    unfolding search_candidates_def using m search_loop_cong [OF m h] by simp
qed

lemma low_fiber_explicit:
  "fiber_limit (f\<lparr>low_fiber := True, max_fiber := Some m\<rparr>) = Some m
   \<and> meets_nutrient_filters fs rf (f\<lparr>low_fiber := True, max_fiber := Some m\<rparr>) p
     = meets_nutrient_filters fs rf (f\<lparr>low_fiber := False, max_fiber := Some m\<rparr>) p
   \<and> search_candidates fs rf prof (f\<lparr>low_fiber := True, max_fiber := Some m\<rparr>) ps
     = search_candidates fs rf prof (f\<lparr>low_fiber := False, max_fiber := Some m\<rparr>) ps"
proof -
  have m: "meets_nutrient_filters fs rf (f\<lparr>low_fiber := True, max_fiber := Some m\<rparr>) q
     = meets_nutrient_filters fs rf (f\<lparr>low_fiber := False, max_fiber := Some m\<rparr>) q" for q
    by (rule meets_nutrient_filters_cong) (simp_all add: limit_defs)
  have h: "has_nutrient_filters (f\<lparr>low_fiber := True, max_fiber := Some m\<rparr>)
     = has_nutrient_filters (f\<lparr>low_fiber := False, max_fiber := Some m\<rparr>)"
    by (simp add: has_nutrient_filters_def limit_defs)
  show ?thesis
    unfolding search_candidates_def using m search_loop_cong [OF m h]
    by (simp add: limit_defs)
qed

lemma low_sugar_default:
  "meets_nutrient_filters fs rf (f\<lparr>low_sugar := True, max_sugar := None\<rparr>) p
     = meets_nutrient_filters fs rf (f\<lparr>low_sugar := False, max_sugar := Some 5.0\<rparr>) p
   \<and> search_candidates fs rf prof (f\<lparr>low_sugar := True, max_sugar := None\<rparr>) ps
     = search_candidates fs rf prof (f\<lparr>low_sugar := False, max_sugar := Some 5.0\<rparr>) ps"
proof -
  have m: "meets_nutrient_filters fs rf (f\<lparr>low_sugar := True, max_sugar := None\<rparr>) q
     = meets_nutrient_filters fs rf (f\<lparr>low_sugar := False, max_sugar := Some 5.0\<rparr>) q" for q
    by (rule meets_nutrient_filters_cong) (simp_all add: limit_defs)
  have h: "has_nutrient_filters (f\<lparr>low_sugar := True, max_sugar := None\<rparr>)
     = has_nutrient_filters (f\<lparr>low_sugar := False, max_sugar := Some 5.0\<rparr>)"
    by (simp add: has_nutrient_filters_def limit_defs)
  show ?thesis
    unfolding search_candidates_def using m search_loop_cong [OF m h] by simp
qed

lemma low_sugar_explicit:
  "sugar_limit (f\<lparr>low_sugar := True, max_sugar := Some m\<rparr>) = Some m
   \<and> meets_nutrient_filters fs rf (f\<lparr>low_sugar := True, max_sugar := Some m\<rparr>) p
     = meets_nutrient_filters fs rf (f\<lparr>low_sugar := False, max_sugar := Some m\<rparr>) p
   \<and> search_candidates fs rf prof (f\<lparr>low_sugar := True, max_sugar := Some m\<rparr>) ps
     = search_candidates fs rf prof (f\<lparr>low_sugar := False, max_sugar := Some m\<rparr>) ps"
proof -
  have m: "meets_nutrient_filters fs rf (f\<lparr>low_sugar := True, max_sugar := Some m\<rparr>) q
     = meets_nutrient_filters fs rf (f\<lparr>low_sugar := False, max_sugar := Some m\<rparr>) q" for q
    by (rule meets_nutrient_filters_cong) (simp_all add: limit_defs)
  have h: "has_nutrient_filters (f\<lparr>low_sugar := True, max_sugar := Some m\<rparr>)
     = has_nutrient_filters (f\<lparr>low_sugar := False, max_sugar := Some m\<rparr>)"
    by (simp add: has_nutrient_filters_def limit_defs)
  show ?thesis
    unfolding search_candidates_def using m search_loop_cong [OF m h]
    by (simp add: limit_defs)
qed

lemma low_salt_default:
  "meets_nutrient_filters fs rf (f\<lparr>low_salt := True, max_salt := None\<rparr>) p
     = meets_nutrient_filters fs rf (f\<lparr>low_salt := False, max_salt := Some 0.3\<rparr>) p
   \<and> search_candidates fs rf prof (f\<lparr>low_salt := True, max_salt := None\<rparr>) ps
     = search_candidates fs rf prof (f\<lparr>low_salt := False, max_salt := Some 0.3\<rparr>) ps"
proof -
  have m: "meets_nutrient_filters fs rf (f\<lparr>low_salt := True, max_salt := None\<rparr>) q
     = meets_nutrient_filters fs rf (f\<lparr>low_salt := False, max_salt := Some 0.3\<rparr>) q" for q
    by (rule meets_nutrient_filters_cong) (simp_all add: limit_defs)
  have h: "has_nutrient_filters (f\<lparr>low_salt := True, max_salt := None\<rparr>)
     = has_nutrient_filters (f\<lparr>low_salt := False, max_salt := Some 0.3\<rparr>)"
    by (simp add: has_nutrient_filters_def limit_defs)
  show ?thesis
    unfolding search_candidates_def using m search_loop_cong [OF m h] by simp
qed

lemma low_salt_explicit:
  "salt_limit (f\<lparr>low_salt := True, max_salt := Some m\<rparr>) = Some m
   \<and> meets_nutrient_filters fs rf (f\<lparr>low_salt := True, max_salt := Some m\<rparr>) p
     = meets_nutrient_filters fs rf (f\<lparr>low_salt := False, max_salt := Some m\<rparr>) p
   \<and> search_candidates fs rf prof (f\<lparr>low_salt := True, max_salt := Some m\<rparr>) ps
     = search_candidates fs rf prof (f\<lparr>low_salt := False, max_salt := Some m\<rparr>) ps"
proof -
  have m: "meets_nutrient_filters fs rf (f\<lparr>low_salt := True, max_salt := Some m\<rparr>) q
     = meets_nutrient_filters fs rf (f\<lparr>low_salt := False, max_salt := Some m\<rparr>) q" for q
    by (rule meets_nutrient_filters_cong) (simp_all add: limit_defs)
  have h: "has_nutrient_filters (f\<lparr>low_salt := True, max_salt := Some m\<rparr>)
     = has_nutrient_filters (f\<lparr>low_salt := False, max_salt := Some m\<rparr>)"
    by (simp add: has_nutrient_filters_def limit_defs)
  show ?thesis
    unfolding search_candidates_def using m search_loop_cong [OF m h]
    by (simp add: limit_defs)
qed

text \<open>
  C8. A shorthand with no explicit maximum filters exactly as its default bound does (3.0
  for fat and fibre, 5.0 for sugar, 0.3 for salt), record by record and over a whole
  candidate list; with an explicit maximum \<open>m\<close> the bound is \<open>m\<close>, and the shorthand changes
  nothing.
\<close>

theorem shorthand_is_default_bound:
  "(meets_nutrient_filters float_str repr_float (f\<lparr>low_fat := True, max_fat := None\<rparr>) p
      = meets_nutrient_filters float_str repr_float (f\<lparr>low_fat := False, max_fat := Some 3.0\<rparr>) p
    \<and> search_candidates float_str repr_float prof (f\<lparr>low_fat := True, max_fat := None\<rparr>) ps
      = search_candidates float_str repr_float prof (f\<lparr>low_fat := False, max_fat := Some 3.0\<rparr>) ps)
   \<and> (fat_limit (f\<lparr>low_fat := True, max_fat := Some m\<rparr>) = Some m
    \<and> meets_nutrient_filters float_str repr_float (f\<lparr>low_fat := True, max_fat := Some m\<rparr>) p
      = meets_nutrient_filters float_str repr_float (f\<lparr>low_fat := False, max_fat := Some m\<rparr>) p
    \<and> search_candidates float_str repr_float prof (f\<lparr>low_fat := True, max_fat := Some m\<rparr>) ps
      = search_candidates float_str repr_float prof (f\<lparr>low_fat := False, max_fat := Some m\<rparr>) ps)
   \<and> (meets_nutrient_filters float_str repr_float (f\<lparr>low_fiber := True, max_fiber := None\<rparr>) p
      = meets_nutrient_filters float_str repr_float (f\<lparr>low_fiber := False, max_fiber := Some 3.0\<rparr>) p
    \<and> search_candidates float_str repr_float prof (f\<lparr>low_fiber := True, max_fiber := None\<rparr>) ps
      = search_candidates float_str repr_float prof (f\<lparr>low_fiber := False, max_fiber := Some 3.0\<rparr>) ps)
   \<and> (fiber_limit (f\<lparr>low_fiber := True, max_fiber := Some m\<rparr>) = Some m
    \<and> meets_nutrient_filters float_str repr_float (f\<lparr>low_fiber := True, max_fiber := Some m\<rparr>) p
      = meets_nutrient_filters float_str repr_float (f\<lparr>low_fiber := False, max_fiber := Some m\<rparr>) p
    \<and> search_candidates float_str repr_float prof (f\<lparr>low_fiber := True, max_fiber := Some m\<rparr>) ps
      = search_candidates float_str repr_float prof (f\<lparr>low_fiber := False, max_fiber := Some m\<rparr>) ps)
   \<and> (meets_nutrient_filters float_str repr_float (f\<lparr>low_sugar := True, max_sugar := None\<rparr>) p
      = meets_nutrient_filters float_str repr_float (f\<lparr>low_sugar := False, max_sugar := Some 5.0\<rparr>) p
    \<and> search_candidates float_str repr_float prof (f\<lparr>low_sugar := True, max_sugar := None\<rparr>) ps
      = search_candidates float_str repr_float prof (f\<lparr>low_sugar := False, max_sugar := Some 5.0\<rparr>) ps)
   \<and> (sugar_limit (f\<lparr>low_sugar := True, max_sugar := Some m\<rparr>) = Some m
    \<and> meets_nutrient_filters float_str repr_float (f\<lparr>low_sugar := True, max_sugar := Some m\<rparr>) p
      = meets_nutrient_filters float_str repr_float (f\<lparr>low_sugar := False, max_sugar := Some m\<rparr>) p
    \<and> search_candidates float_str repr_float prof (f\<lparr>low_sugar := True, max_sugar := Some m\<rparr>) ps
      = search_candidates float_str repr_float prof (f\<lparr>low_sugar := False, max_sugar := Some m\<rparr>) ps)
   \<and> (meets_nutrient_filters float_str repr_float (f\<lparr>low_salt := True, max_salt := None\<rparr>) p
      = meets_nutrient_filters float_str repr_float (f\<lparr>low_salt := False, max_salt := Some 0.3\<rparr>) p
    \<and> search_candidates float_str repr_float prof (f\<lparr>low_salt := True, max_salt := None\<rparr>) ps
      = search_candidates float_str repr_float prof (f\<lparr>low_salt := False, max_salt := Some 0.3\<rparr>) ps)
   \<and> (salt_limit (f\<lparr>low_salt := True, max_salt := Some m\<rparr>) = Some m
    \<and> meets_nutrient_filters float_str repr_float (f\<lparr>low_salt := True, max_salt := Some m\<rparr>) p
      = meets_nutrient_filters float_str repr_float (f\<lparr>low_salt := False, max_salt := Some m\<rparr>) p
    \<and> search_candidates float_str repr_float prof (f\<lparr>low_salt := True, max_salt := Some m\<rparr>) ps
      = search_candidates float_str repr_float prof (f\<lparr>low_salt := False, max_salt := Some m\<rparr>) ps)"
  by (intro conjI low_fat_default low_fat_explicit low_fiber_default low_fiber_explicit
        low_sugar_default low_sugar_explicit low_salt_default low_salt_explicit)

subsection \<open>The candidate loop\<close>

lemma bit_length_le: "n < 2 ^ k \<Longrightarrow> bit_length n \<le> k"
proof (induction k arbitrary: n)
  case 0
  then show ?case by (simp add: bit_length.simps)
next
  case (Suc k)
  show ?case
  proof (cases "n = 0")
    case True
    then show ?thesis by (simp add: bit_length.simps)
  next
    case False
    from Suc.prems have "n div 2 < 2 ^ k" by simp
    from Suc.IH [OF this] False show ?thesis by (simp add: bit_length.simps [of n])
  qed
qed

lemma float_of_int_exact:
  assumes "\<bar>i\<bar> < 2 ^ 53"
  shows "float_of_int i = Inr (real_of_int i)"
proof -
  from assms have "nat \<bar>i\<bar> < 2 ^ 53"
    by (metis nat_less_numeral_power_cancel_iff)
  then have e: "bit_length (nat \<bar>i\<bar>) - 53 = 0"
    using bit_length_le [of "nat \<bar>i\<bar>" 53] by simp
  have "nat \<bar>i\<bar> < 2 ^ 1024"
    using \<open>nat \<bar>i\<bar> < 2 ^ 53\<close> by (rule less_trans) simp
  moreover have "real_of_int (sgn i * \<bar>i\<bar>) = real_of_int i"
    by (simp add: mult_sgn_abs)
  ultimately show ?thesis
    by (simp add: float_of_int_def e Let_def not_le)
qed

lemma rejected_run:
  assumes "has_nutrient_filters f"
    and "meets_nutrient_filters fs rf f p = Inr (False, r)"
  shows "search_loop fs rf prof f (replicate n p) st
         = Inr (st\<lparr>total_checked := total_checked st + n\<rparr>)"
proof (induction n arbitrary: st)
  case 0
  show ?case by simp
next
  case (Suc n)
  show ?case by (simp add: assms Suc.IH Let_def)
qed

text \<open>
  C2. Sixty candidates, each above the fat limit of the filter: the loop inspects all
  sixty. A rejected candidate leaves the body through \<^verbatim>\<open>continue\<close>, before the test of
  the two bounds, so the count of inspected candidates passes 50.
\<close>

theorem rejected_candidates_pass_the_bound:
  "search_candidates float_str repr_float prof (no_filters\<lparr>max_fat := Some 3.0\<rparr>)
     (replicate 60 (blank_product\<lparr>nutriments := Some [(lat ''fat_100g'', PInt 10)]\<rparr>))
   = Inr \<lparr>filtered_results = [], total_checked = 60\<rparr>"
proof -
  let ?f = "no_filters\<lparr>max_fat := Some 3.0\<rparr>"
  let ?p = "blank_product\<lparr>nutriments := Some [(lat ''fat_100g'', PInt 10)]\<rparr>"
  have h: "has_nutrient_filters ?f"
    by (simp add: has_nutrient_filters_def limit_defs no_filters_def)
  have m: "meets_nutrient_filters float_str repr_float ?f ?p
           = Inr (False, Some (OverLimit (lat ''Fat'') (PInt 10) 3.0))"
    by (simp add: meets_nutrient_filters_def limit_defs no_filters_def resolve_def
          dict_get_def nutriments_of_def blank_product_def float_of_int_exact)
  show ?thesis
    unfolding search_candidates_def rejected_run [OF h m] by simp
qed

subsection \<open>Nut detection\<close>













end
